theory Spec2Isabelle
  imports Complex_Main
begin

section \<open>Link budget and look angles: the embedding\<close>

text \<open>
  The Python sources \<^verbatim>\<open>linkbudget/calc.py\<close>, \<^verbatim>\<open>linkbudget/pointing.py\<close> and
  \<^verbatim>\<open>linkbudget/main.py\<close> as HOL functions. Python floats are read as real numbers
  (no rounding, no infinities, no signed zeros), except in the double-precision reading
  of the two noise conversions, which rounds every operation. Every exception of the
  source is a
  value: a function that can raise returns \<open>error + 'a\<close>, with \<open>Inl\<close> for the
  exception. Logging calls have no effect on any result and are left out.
\<close>

subsection \<open>Exceptions\<close>

text \<open>
  \<open>ValueError\<close> carries the message of the source; \<open>math domain error\<close> is the message
  of the \<^verbatim>\<open>math\<close> module. \<open>Undefined\<close> is not an exception: it stands for the
  points where real arithmetic has no value while the floats of the source produce one
  (a pole of \<^verbatim>\<open>tan\<close>, a \<^verbatim>\<open>nan\<close>, an infinity). \<open>OverflowError\<close> is raised
  by a float power only, so it occurs in the floating-point reading below.
\<close>

datatype error =
    ValueError string
  | ZeroDivisionError
  | AssertionError
  | TypeError
  | IndexError
  | OverflowError
  | Undefined

subsection \<open>The math module and the helpers of util.py\<close>

definition SPEED_OF_LIGHT :: real where
  "SPEED_OF_LIGHT = 299792458"

definition T0 :: real where
  "T0 = 290"

text \<open>\<^verbatim>\<open>math.log10\<close> raises \<^verbatim>\<open>ValueError\<close> on an argument that is not positive.\<close>

definition log10 :: "real \<Rightarrow> error + real" where
  "log10 x = (if 0 < x then Inr (log 10 x) else Inl (ValueError ''math domain error''))"

text \<open>\<^verbatim>\<open>math.log2\<close>, with the same domain.\<close>

definition log2 :: "real \<Rightarrow> error + real" where
  "log2 x = (if 0 < x then Inr (log 2 x) else Inl (ValueError ''math domain error''))"

text \<open>
  Modelled from the spec: \<^verbatim>\<open>util.db_to_abs\<close> is not among the source files; the
  specification converts a dB value to linear units as \<open>10^(x/10)\<close>.
\<close>

definition db_to_abs :: "real \<Rightarrow> real" where
  "db_to_abs x = 10 powr (x / 10)"

text \<open>
  Modelled from the spec: \<^verbatim>\<open>util.abs_to_db\<close> is not among the source files; a linear
  value goes to dB as \<open>10 log10 x\<close>.
\<close>

definition abs_to_db :: "real \<Rightarrow> error + real" where
  "abs_to_db x = (case log10 x of Inl err \<Rightarrow> Inl err | Inr l \<Rightarrow> Inr (10 * l))"

subsection \<open>calc.py\<close>

definition eirp :: "real \<Rightarrow> real \<Rightarrow> real" where
  "eirp tx_power tx_dish_gain = tx_power + tx_dish_gain"

text \<open>
  \<^verbatim>\<open>path_loss(d, freq, radar=False, rcs=None, bistatic=False, d_rx=None)\<close>.
  The wavelength \<open>SPEED_OF_LIGHT / freq\<close> raises for \<open>freq = 0\<close>; for any other
  frequency it is not zero, so the later divisions by it cannot raise. The one-way loss
  and the object gain are computed, and so may raise, before the checks that follow them
  in the source.
\<close>

definition path_loss ::
  "real \<Rightarrow> real \<Rightarrow> bool \<Rightarrow> real option \<Rightarrow> bool \<Rightarrow> real option \<Rightarrow> error + real" where
  "path_loss d freq radar rcs bistatic d_rx =
     (if freq = 0 then Inl ZeroDivisionError
      else
        let wavelength = SPEED_OF_LIGHT / freq in
        case log10 (4 * pi * d / wavelength) of
          Inl err \<Rightarrow> Inl err
        | Inr l \<Rightarrow>
            let Lfs_one_way_db = 20 * l in
            if radar then
              (case rcs of
                 None \<Rightarrow> Inl (ValueError ''Radar cross section required in radar mode'')
               | Some rcs_v \<Rightarrow>
                   (case log10 (4 * pi * rcs_v / (wavelength ^ 2)) of
                      Inl err \<Rightarrow> Inl err
                    | Inr g \<Rightarrow>
                        let G_obj_db = 10 * g in
                        if bistatic then
                          (case d_rx of
                             None \<Rightarrow>
                               Inl (ValueError ''Rx distance required in bistatic radar mode'')
                           | Some d_rx_v \<Rightarrow>
                               (case log10 (4 * pi * d_rx_v / wavelength) of
                                  Inl err \<Rightarrow> Inl err
                                | Inr lr \<Rightarrow>
                                    let Lfs_tx_db = Lfs_one_way_db;
                                        Lfs_rx_db = 20 * lr
                                    in Inr (Lfs_tx_db + Lfs_rx_db - G_obj_db)))
                        else Inr (2 * Lfs_one_way_db - G_obj_db)))
            else Inr Lfs_one_way_db)"

definition dish_gain :: "real \<Rightarrow> real \<Rightarrow> error + real" where
  "dish_gain diameter freq =
     (let radius = diameter / 2;
          face_area = pi * (radius ^ 2)
      in if freq = 0 then Inl ZeroDivisionError
         else
           let wavelength = SPEED_OF_LIGHT / freq;
               gain = 7 * face_area / (wavelength ^ 2)
           in case log10 gain of Inl err \<Rightarrow> Inl err | Inr l \<Rightarrow> Inr (10 * l))"

text \<open>\<^verbatim>\<open>coax_loss_nf(length_ft, Tl=T0)\<close>: the pair of the loss and the noise figure.\<close>

definition coax_loss_nf :: "real \<Rightarrow> real \<Rightarrow> error + (real \<times> real)" where
  "coax_loss_nf length_ft Tl =
     (let loss_db_per_ft = 8 / 100;
          loss_db = length_ft * loss_db_per_ft;
          loss = db_to_abs loss_db;
          noise_factor = 1 + (Tl / T0) * (loss - 1)
      in case log10 noise_factor of
           Inl err \<Rightarrow> Inl err
         | Inr l \<Rightarrow> Inr (loss_db, 10 * l))"

text \<open>
  The loop of \<^verbatim>\<open>total_noise_figure\<close> over \<^verbatim>\<open>enumerate(nfs[1:])\<close>: the first
  argument is what is left of \<^verbatim>\<open>nfs[1:]\<close>, \<open>i\<close> the index, \<open>F\<close> and \<open>G_prod\<close> the two
  accumulators. \<^verbatim>\<open>gains[i]\<close> raises out of range, the division raises on zero.
\<close>

fun noise_loop :: "real list \<Rightarrow> real list \<Rightarrow> nat \<Rightarrow> real \<Rightarrow> real \<Rightarrow> error + real" where
  "noise_loop [] gains i F G_prod = Inr F"
| "noise_loop (nf # rest) gains i F G_prod =
     (let nf_abs = db_to_abs nf in
      if \<not> i < length gains then Inl IndexError
      else
        let G_prod' = G_prod * db_to_abs (gains ! i) in
        if G_prod' = 0 then Inl ZeroDivisionError
        else noise_loop rest gains (i + 1) (F + (nf_abs - 1) / G_prod') G_prod')"

text \<open>
  The three assertions come first; \<open>len(nfs) - 1\<close> is an integer subtraction, which is
  \<open>- 1\<close> on the empty list.
\<close>

definition total_noise_figure :: "real list \<Rightarrow> real list \<Rightarrow> error + real" where
  "total_noise_figure nfs gains =
     (if \<not> length nfs > 0 then Inl AssertionError
      else if \<not> length gains > 0 then Inl AssertionError
      else if \<not> int (length gains) = int (length nfs) - 1 then Inl AssertionError
      else if length nfs = 1 then Inr (nfs ! 0)
      else
        case noise_loop (tl nfs) gains 0 (db_to_abs (nfs ! 0)) 1 of
          Inl err \<Rightarrow> Inl err
        | Inr F \<Rightarrow> (case log10 F of Inl err \<Rightarrow> Inl err | Inr l \<Rightarrow> Inr (10 * l)))"

definition noise_fig_to_noise_temp :: "real \<Rightarrow> real" where
  "noise_fig_to_noise_temp nf = (let nf_abs = db_to_abs nf in T0 * (nf_abs - 1))"

definition noise_temp_to_noise_fig :: "real \<Rightarrow> error + real" where
  "noise_temp_to_noise_fig Te =
     (let nf_abs = 1 + Te / T0
      in case log10 nf_abs of Inl err \<Rightarrow> Inl err | Inr l \<Rightarrow> Inr (10 * l))"

definition rx_sys_noise_temp :: "real \<Rightarrow> real \<Rightarrow> real" where
  "rx_sys_noise_temp Tar Te = Tar + Te"

definition cnr :: "real \<Rightarrow> real \<Rightarrow> real \<Rightarrow> real \<Rightarrow> real \<Rightarrow> error + real" where
  "cnr eirp_db path_loss_db rx_ant_gain_db T_sys_db bw =
     (let k_db = - 2286 / 10 in
      case log10 bw of
        Inl err \<Rightarrow> Inl err
      | Inr l \<Rightarrow>
          let bw_db = 10 * l;
              g_over_t_db = rx_ant_gain_db - T_sys_db
          in Inr (eirp_db - path_loss_db + g_over_t_db - k_db - bw_db))"

definition capacity :: "real \<Rightarrow> real \<Rightarrow> error + real" where
  "capacity snr_db bw =
     (let snr = db_to_abs snr_db
      in case log2 (1 + snr) of Inl err \<Rightarrow> Inl err | Inr l \<Rightarrow> Inr (bw * l))"

subsection \<open>pointing.py\<close>

definition radians :: "real \<Rightarrow> real" where
  "radians x = x * pi / 180"

definition degrees :: "real \<Rightarrow> real" where
  "degrees x = x * 180 / pi"

text \<open>
  \<^verbatim>\<open>math.atan2(y, x)\<close>: the angle of the point \<open>(x, y)\<close> in \<open>(-pi, pi]\<close>, and
  \<open>0\<close> at the origin.
\<close>

definition atan2 :: "real \<Rightarrow> real \<Rightarrow> real" where
  "atan2 y x =
     (if 0 < x then arctan (y / x)
      else if x < 0 then (if 0 \<le> y then arctan (y / x) + pi else arctan (y / x) - pi)
      else if 0 < y then pi / 2
      else if y < 0 then - (pi / 2)
      else 0)"

text \<open>
  The float remainder \<^verbatim>\<open>x % m\<close> of Python for \<open>m > 0\<close>: it has the sign of the
  divisor.
\<close>

definition py_fmod :: "real \<Rightarrow> real \<Rightarrow> real" where
  "py_fmod x m = x - m * of_int \<lfloor>x / m\<rfloor>"

text \<open>
  \<^verbatim>\<open>math.tan\<close> over the reals has a pole where the cosine is zero. No float is
  exactly at a pole, so the source gets a huge finite number there; the model has no
  real number to give.
\<close>

definition py_tan :: "real \<Rightarrow> error + real" where
  "py_tan x = (if cos x = 0 then Inl Undefined else Inr (tan x))"

text \<open>The 3-vectors and the 3x3 matrix of numpy that the ellipsoidal model uses.\<close>

type_synonym vec3 = "real \<times> real \<times> real"

definition vec_sub :: "vec3 \<Rightarrow> vec3 \<Rightarrow> vec3" where
  "vec_sub a b = (case a of (a1, a2, a3) \<Rightarrow> case b of (b1, b2, b3) \<Rightarrow>
     (a1 - b1, a2 - b2, a3 - b3))"

definition vec_dot :: "vec3 \<Rightarrow> vec3 \<Rightarrow> real" where
  "vec_dot a b = (case a of (a1, a2, a3) \<Rightarrow> case b of (b1, b2, b3) \<Rightarrow>
     a1 * b1 + a2 * b2 + a3 * b3)"

definition vec_norm :: "vec3 \<Rightarrow> real" where
  "vec_norm a = sqrt (vec_dot a a)"

definition mat_vec :: "vec3 \<times> vec3 \<times> vec3 \<Rightarrow> vec3 \<Rightarrow> vec3" where
  "mat_vec m v = (case m of (r1, r2, r3) \<Rightarrow> (vec_dot r1 v, vec_dot r2 v, vec_dot r3 v))"

text \<open>
  \<^verbatim>\<open>_look_angles_ellipsoidal(sat_long, rx_long, rx_lat, rx_height=0, sat_alt=35786e3)\<close>.
  The argument of the square root in \<open>N\<close> is positive (the eccentricity squared is below
  one), so neither the root nor the division raises. The components \<open>e, n, u\<close> are numpy
  floats: \<^verbatim>\<open>u / sqrt(e**2 + n**2)\<close> with a zero divisor does not raise, it is an
  infinity with the sign of \<open>u\<close>, whose arc tangent is a right angle, or a \<^verbatim>\<open>nan\<close>
  when \<open>u\<close> is zero too.
\<close>

definition look_angles_ellipsoidal ::
  "real \<Rightarrow> real \<Rightarrow> real \<Rightarrow> real \<Rightarrow> real \<Rightarrow> error + (real \<times> real \<times> real)" where
  "look_angles_ellipsoidal sat_long_deg rx_long_deg rx_lat_deg rx_height sat_alt =
     (let sat_long = radians sat_long_deg;
          rx_long = radians rx_long_deg;
          rx_lat = radians rx_lat_deg;
          f_inv = 298257222100882711 / 10 ^ 15;
          f = 1 / f_inv;
          e_sq = 2 * f - f ^ 2;
          R_eq = 6378137;
          r = R_eq + sat_alt;
          N = R_eq / sqrt (1 - e_sq * (sin rx_lat) ^ 2);
          Ng = 0;
          h = Ng + rx_height;
          x_p = (N + h) * cos rx_long * cos rx_lat;
          y_p = (N + h) * sin rx_long * cos rx_lat;
          z_p = (N * (1 - e_sq) + h) * sin rx_lat;
          x_s = r * cos sat_long;
          y_s = r * sin sat_long;
          z_s = 0;
          rect_coor = vec_sub (x_s, y_s, z_s) (x_p, y_p, z_p);
          slant_range = vec_norm rect_coor;
          rot_mtx =
            ((- sin rx_long, cos rx_long, 0),
             (- sin rx_lat * cos rx_long, - sin rx_lat * sin rx_long, cos rx_lat),
             (cos rx_lat * cos rx_long, cos rx_lat * sin rx_long, sin rx_lat));
          geodetic_coor = mat_vec rot_mtx rect_coor
      in case geodetic_coor of (e, n, u) \<Rightarrow>
           let azimuth = atan2 e n;
               horizontal = sqrt (e ^ 2 + n ^ 2);
               azimuth_degrees = py_fmod (degrees azimuth) 360
           in if horizontal = 0 then
                (if 0 < u then Inr (degrees (pi / 2), azimuth_degrees, slant_range)
                 else if u < 0 then Inr (degrees (- (pi / 2)), azimuth_degrees, slant_range)
                 else Inl Undefined)
              else
                let vert_angle = arctan (u / horizontal);
                    elevation_degrees = degrees vert_angle
                in Inr (elevation_degrees, azimuth_degrees, slant_range))"

text \<open>
  \<^verbatim>\<open>_look_angles_spherical(sat_long, rx_long, rx_lat, sat_alt=35786e3)\<close>. The
  divisions \<open>R/r\<close>, \<open>r/d\<close> and the one by \<open>tan(gamma)\<close> raise on zero;
  \<^verbatim>\<open>acos\<close> and \<^verbatim>\<open>asin\<close> raise outside \<open>[-1, 1]\<close>; the numerator
  \<open>tan(rx_lat)\<close> is evaluated before the denominator.
\<close>

definition py_acos :: "real \<Rightarrow> error + real" where
  "py_acos x = (if - 1 \<le> x \<and> x \<le> 1 then Inr (arccos x)
                else Inl (ValueError ''math domain error''))"

definition py_asin :: "real \<Rightarrow> error + real" where
  "py_asin x = (if - 1 \<le> x \<and> x \<le> 1 then Inr (arcsin x)
                else Inl (ValueError ''math domain error''))"

definition look_angles_spherical ::
  "real \<Rightarrow> real \<Rightarrow> real \<Rightarrow> real \<Rightarrow> error + (real \<times> real \<times> real)" where
  "look_angles_spherical sat_long_deg rx_long_deg rx_lat_deg sat_alt =
     (let sat_long = radians sat_long_deg;
          rx_long = radians rx_long_deg;
          rx_lat = radians rx_lat_deg;
          R = 6371000;
          R_eq = 6378137;
          r = R_eq + sat_alt;
          cos_gamma = cos rx_lat * cos (sat_long - rx_long)
      in case py_acos cos_gamma of
           Inl err \<Rightarrow> Inl err
         | Inr gamma \<Rightarrow>
             (if r = 0 then Inl ZeroDivisionError
              else
                let d = r * sqrt (1 + (R / r) ^ 2 - 2 * (R / r) * cos_gamma) in
                if d = 0 then Inl ZeroDivisionError
                else
                  (case py_asin ((r / d) * sin gamma) of
                     Inl err \<Rightarrow> Inl err
                   | Inr z \<Rightarrow>
                       (let v = 90 - degrees z in
                        (case py_tan rx_lat of
                           Inl err \<Rightarrow> Inl err
                         | Inr tan_lat \<Rightarrow>
                             (case py_tan gamma of
                                Inl err \<Rightarrow> Inl err
                              | Inr tan_gamma \<Rightarrow>
                                  (if tan_gamma = 0 then Inl ZeroDivisionError
                                   else
                                     (case py_acos (tan_lat / tan_gamma) of
                                        Inl err \<Rightarrow> Inl err
                                      | Inr b \<Rightarrow>
                                          (let beta = degrees b;
                                               alpha =
                                                 (if rx_lat > 0 then
                                                    (if sat_long < rx_long then 180 + beta
                                                     else 180 - beta)
                                                  else
                                                    (if sat_long < rx_long then 360 - beta
                                                     else beta))
                                           in Inr (v, alpha, d))))))))))"

text \<open>
  \<^verbatim>\<open>look_angles(sat_long, rx_long, rx_lat, sat_alt=35786e3, implementation='ellipsoidal')\<close>:
  the selector is compared with one string; the ellipsoidal model is called with its
  default receiver height \<open>0\<close>.
\<close>

definition look_angles ::
  "real \<Rightarrow> real \<Rightarrow> real \<Rightarrow> real \<Rightarrow> string \<Rightarrow> error + (real \<times> real \<times> real)" where
  "look_angles sat_long rx_long rx_lat sat_alt implementation =
     (if implementation = ''ellipsoidal''
      then look_angles_ellipsoidal sat_long rx_long rx_lat 0 sat_alt
      else look_angles_spherical sat_long rx_long rx_lat sat_alt)"

subsection \<open>main.py\<close>

text \<open>
  The populated argparse namespace: field \<open>x\<close> of the source is \<open>arg_x\<close> here.
  Options that the parser may leave at \<^verbatim>\<open>None\<close> are optional values; the required
  ones are floats, the flags are booleans.
\<close>

record args =
  arg_json :: bool
  arg_eirp :: "real option"
  arg_tx_power :: "real option"
  arg_tx_dish_size :: "real option"
  arg_tx_dish_gain :: "real option"
  arg_freq :: real
  arg_if_bw :: real
  arg_rx_dish_size :: "real option"
  arg_rx_dish_gain :: "real option"
  arg_antenna_noise_temp :: real
  arg_lnb_noise_fig :: "real option"
  arg_lnb_noise_temp :: "real option"
  arg_lnb_gain :: real
  arg_coax_length :: real
  arg_rx_noise_fig :: real
  arg_sat_long :: real
  arg_sat_lat :: "real option"
  arg_rx_long :: real
  arg_rx_lat :: real
  arg_radar :: bool
  arg_radar_alt :: "real option"
  arg_radar_cross_section :: "real option"
  arg_radar_bistatic :: bool

text \<open>The dictionary that \<^verbatim>\<open>analyze\<close> returns, key by key.\<close>

record results =
  res_elevation :: real
  res_azimuth :: real
  res_slant_range :: real
  res_eirp_db :: real
  res_path_loss_db :: real
  res_rx_dish_gain_db :: real
  res_noise_fig_lnb :: real
  res_noise_fig_coax :: real
  res_noise_fig_total :: real
  res_noise_temp_effective_input :: real
  res_noise_temp_system :: real
  res_cnr_db :: real
  res_capacity_bps :: real

text \<open>Sequencing: the first exception ends the computation.\<close>

definition and_then :: "error + 'a \<Rightarrow> ('a \<Rightarrow> error + 'b) \<Rightarrow> error + 'b" where
  "and_then m k = (case m of Inl err \<Rightarrow> Inl err | Inr v \<Rightarrow> k v)"

text \<open>Arithmetic on an option that was left at \<^verbatim>\<open>None\<close> raises \<^verbatim>\<open>TypeError\<close>.\<close>

definition number :: "real option \<Rightarrow> error + real" where
  "number x = (case x of None \<Rightarrow> Inl TypeError | Some v \<Rightarrow> Inr v)"

text \<open>
  \<^verbatim>\<open>analyze(args)\<close>. \<^verbatim>\<open>look_angles\<close> is called with four arguments, so with the
  ellipsoidal model; \<^verbatim>\<open>path_loss\<close> is called with five, so \<open>d_rx\<close> keeps its default
  \<^verbatim>\<open>None\<close>; \<^verbatim>\<open>coax_loss_nf\<close> is called with one, so the line is at \<open>T0\<close>.
\<close>

definition analyze :: "args \<Rightarrow> error + results" where
  "analyze a =
     (let sat_alt = (if \<not> arg_radar a then Some 35786000 else arg_radar_alt a) in
      and_then (number sat_alt) (\<lambda>alt.
      and_then (look_angles (arg_sat_long a) (arg_rx_long a) (arg_rx_lat a) alt ''ellipsoidal'')
        (\<lambda>(elevation, azimuth, slant_range).
      and_then
        (case arg_eirp a of
           None \<Rightarrow>
             and_then
               (case arg_tx_dish_gain a of
                  None \<Rightarrow> and_then (number (arg_tx_dish_size a)) (\<lambda>size. dish_gain size (arg_freq a))
                | Some g \<Rightarrow> Inr g)
               (\<lambda>tx_gain. and_then (number (arg_tx_power a)) (\<lambda>p. Inr (eirp p tx_gain)))
         | Some v \<Rightarrow> Inr v)
        (\<lambda>eirp_v.
      and_then
        (path_loss slant_range (arg_freq a) (arg_radar a) (arg_radar_cross_section a)
           (arg_radar_bistatic a) None)
        (\<lambda>path_loss_db.
      and_then
        (case arg_rx_dish_gain a of
           None \<Rightarrow> and_then (number (arg_rx_dish_size a)) (\<lambda>size. dish_gain size (arg_freq a))
         | Some g \<Rightarrow> Inr g)
        (\<lambda>dish_gain_db.
      and_then (coax_loss_nf (arg_coax_length a) T0) (\<lambda>(coax_loss_db, coax_noise_fig_db).
      and_then
        (case arg_lnb_noise_fig a of
           None \<Rightarrow> and_then (number (arg_lnb_noise_temp a)) noise_temp_to_noise_fig
         | Some nf \<Rightarrow> Inr nf)
        (\<lambda>lnb_noise_fig.
      and_then
        (total_noise_figure [lnb_noise_fig, coax_noise_fig_db, arg_rx_noise_fig a]
           [arg_lnb_gain a, - coax_loss_db])
        (\<lambda>noise_fig_db.
      let effective_input_noise_temp = noise_fig_to_noise_temp noise_fig_db;
          T_syst = rx_sys_noise_temp (arg_antenna_noise_temp a) effective_input_noise_temp
      in
      and_then (abs_to_db T_syst) (\<lambda>T_syst_db.
      and_then (cnr eirp_v path_loss_db dish_gain_db T_syst_db (arg_if_bw a)) (\<lambda>cnr_v.
      and_then (capacity cnr_v (arg_if_bw a)) (\<lambda>capacity_v.
      Inr \<lparr>res_elevation = elevation,
           res_azimuth = azimuth,
           res_slant_range = slant_range,
           res_eirp_db = eirp_v,
           res_path_loss_db = path_loss_db,
           res_rx_dish_gain_db = dish_gain_db,
           res_noise_fig_lnb = lnb_noise_fig,
           res_noise_fig_coax = coax_noise_fig_db,
           res_noise_fig_total = noise_fig_db,
           res_noise_temp_effective_input = effective_input_noise_temp,
           res_noise_temp_system = T_syst,
           res_cnr_db = cnr_v,
           res_capacity_bps = capacity_v\<rparr>))))))))))))"

text \<open>
  A namespace as the parser would fill it for a bistatic radar run: EIRP 50 dBW at
  1.296 GHz, an object 1000 km above a receiver on the equator, cross section 10.
\<close>

definition bistatic_args :: args where
  "bistatic_args =
     \<lparr>arg_json = False, arg_eirp = Some 50, arg_tx_power = None, arg_tx_dish_size = None,
      arg_tx_dish_gain = None, arg_freq = 1296000000, arg_if_bw = 1000000,
      arg_rx_dish_size = None, arg_rx_dish_gain = Some 35, arg_antenna_noise_temp = 30,
      arg_lnb_noise_fig = Some 1, arg_lnb_noise_temp = None, arg_lnb_gain = 55,
      arg_coax_length = 10, arg_rx_noise_fig = 8, arg_sat_long = 0, arg_sat_lat = None,
      arg_rx_long = 0, arg_rx_lat = 0, arg_radar = True, arg_radar_alt = Some 1000000,
      arg_radar_cross_section = Some 10, arg_radar_bistatic = True\<rparr>"

subsection \<open>The noise conversions in double precision\<close>








subsection \<open>The cascade formula of the specification\<close>

text \<open>
  The noise factor as the specification writes it, stage by stage:
  \<open>F = F\<^sub>1 + \<Sum> i = 2..N. (F\<^sub>i - 1) / (G\<^sub>1 \<cdots> G\<^sub>i\<^sub>-\<^sub>1)\<close>, with lists indexed from \<open>0\<close>.
\<close>

definition friis_noise_factor :: "real list \<Rightarrow> real list \<Rightarrow> real" where
  "friis_noise_factor nfs gains =
     db_to_abs (nfs ! 0) +
     (\<Sum>i = 1..<length nfs. (db_to_abs (nfs ! i) - 1) / (\<Prod>j<i. db_to_abs (gains ! j)))"

section \<open>Properties\<close>

subsection \<open>Helper facts about the math module\<close>

lemma log10_db_to_abs: "log10 (db_to_abs x) = Inr (x / 10)"
  by (simp add: log10_def db_to_abs_def)

lemma db_to_abs_pos: "0 < db_to_abs x"
  by (simp add: db_to_abs_def)

subsection \<open>Path loss\<close>

text \<open>For a frequency that is not zero, when the two logarithms of \<open>path_loss\<close> are defined.\<close>

lemma one_way_arg_pos:
  assumes "f \<noteq> 0"
  shows "(0 < 4 * pi * x / (SPEED_OF_LIGHT / f)) = (0 < x * f)"
proof -
  have "4 * pi * x / (SPEED_OF_LIGHT / f) = (4 * pi / SPEED_OF_LIGHT) * (x * f)"
    by (simp add: SPEED_OF_LIGHT_def)
  moreover have "0 < 4 * pi / SPEED_OF_LIGHT"
    by (simp add: SPEED_OF_LIGHT_def)
  ultimately show ?thesis
    by (simp only: zero_less_mult_iff) auto
qed

lemma object_gain_arg_pos:
  assumes "f \<noteq> 0"
  shows "(0 < 4 * pi * x / (SPEED_OF_LIGHT / f) ^ 2) = (0 < x)"
proof -
  have "0 < (SPEED_OF_LIGHT / f) ^ 2"
    using assms by (simp add: SPEED_OF_LIGHT_def)
  then show ?thesis
    by (simp only: zero_less_divide_iff zero_less_mult_iff) (auto simp: not_less)
qed

lemma log10_one_way:
  assumes "f \<noteq> 0"
  shows "log10 (4 * pi * x / (SPEED_OF_LIGHT / f)) =
     (if 0 < x * f then Inr (log 10 (4 * pi * x / (SPEED_OF_LIGHT / f)))
      else Inl (ValueError ''math domain error''))"
  by (simp only: log10_def one_way_arg_pos [OF assms])

lemma log10_object_gain:
  assumes "f \<noteq> 0"
  shows "log10 (4 * pi * x / (SPEED_OF_LIGHT / f) ^ 2) =
     (if 0 < x then Inr (log 10 (4 * pi * x / (SPEED_OF_LIGHT / f) ^ 2))
      else Inl (ValueError ''math domain error''))"
  by (simp only: log10_def object_gain_arg_pos [OF assms])

text \<open>
  Radar mode without a cross section, and bistatic radar mode without a receiver
  distance: which error each call ends in.
\<close>

lemma path_loss_no_rcs:
  "path_loss d f True None bistatic d_rx =
     (if f = 0 then Inl ZeroDivisionError
      else if d * f \<le> 0 then Inl (ValueError ''math domain error'')
      else Inl (ValueError ''Radar cross section required in radar mode''))"
proof (cases "f = 0")
  case True
  then show ?thesis by (simp add: path_loss_def)
next
  case False
  show ?thesis
    unfolding path_loss_def Let_def log10_one_way [OF False]
    using False by (simp add: not_less)
qed

lemma path_loss_bistatic_no_rx:
  "path_loss d f True (Some rcs) True None =
     (if f = 0 then Inl ZeroDivisionError
      else if d * f \<le> 0 then Inl (ValueError ''math domain error'')
      else if rcs \<le> 0 then Inl (ValueError ''math domain error'')
      else Inl (ValueError ''Rx distance required in bistatic radar mode''))"
proof (cases "f = 0")
  case True
  then show ?thesis by (simp add: path_loss_def)
next
  case False
  show ?thesis
    unfolding path_loss_def Let_def log10_one_way [OF False] log10_object_gain [OF False]
    using False by (simp add: not_less)
qed

lemma path_loss_bistatic_fails:
  "\<exists>err. path_loss d f True rcs_opt True None = Inl err"
proof (cases rcs_opt)
  case None
  then show ?thesis by (simp add: path_loss_no_rcs)
next
  case (Some rcs)
  then show ?thesis by (simp add: path_loss_bistatic_no_rx)
qed

lemma path_loss_bistatic_not_Inr:
  "path_loss d f True rcs_opt True None \<noteq> Inr v"
  using path_loss_bistatic_fails [of d f rcs_opt] by auto

text \<open>
  C5: in radar mode without a cross section, and in bistatic radar mode without a
  receiver distance, \<open>path_loss\<close> ends in an error and returns no loss. For a distance
  and a frequency whose product is positive (and a positive cross section in the second
  case) the error is the \<open>ValueError\<close> of the missing input; otherwise it is the error
  of the statements that come before the check in the source.
\<close>

theorem path_loss_missing_radar_inputs:
  "path_loss d f True None bistatic d_rx =
     (if f = 0 then Inl ZeroDivisionError
      else if d * f \<le> 0 then Inl (ValueError ''math domain error'')
      else Inl (ValueError ''Radar cross section required in radar mode'')) \<and>
   path_loss d f True (Some rcs) True None =
     (if f = 0 then Inl ZeroDivisionError
      else if d * f \<le> 0 then Inl (ValueError ''math domain error'')
      else if rcs \<le> 0 then Inl (ValueError ''math domain error'')
      else Inl (ValueError ''Rx distance required in bistatic radar mode''))"
  by (simp only: path_loss_no_rcs path_loss_bistatic_no_rx simp_thms)

theorem path_loss_missing_radar_inputs_witness:
  "path_loss 1000 1000000 True None False None =
     Inl (ValueError ''Radar cross section required in radar mode'') \<and>
   path_loss 1000 1000000 True (Some 10) True None =
     Inl (ValueError ''Rx distance required in bistatic radar mode'')"
  using path_loss_missing_radar_inputs [of 1000 1000000 False None 10] by simp

text \<open>
  C4: for \<open>d > 0\<close>, \<open>f > 0\<close> and \<open>rcs > 0\<close>, with the wavelength \<open>c / f\<close> and the
  one-way loss \<open>L x = 20 log10 (4 pi x / wavelength)\<close>: without radar the result is
  \<open>L d\<close>; monostatic radar gives \<open>2 L d - G\<close>; bistatic radar with a receiver distance
  \<open>d_rx\<close> gives \<open>L d + L d_rx - G\<close>, where \<open>G = 10 log10 (4 pi rcs / wavelength^2)\<close>.
  \<open>L d_rx\<close> is a logarithm of the source too: it has a value for \<open>d_rx > 0\<close> and
  raises otherwise.
\<close>

theorem path_loss_formulas:
  assumes "0 < d" "0 < f" "0 < rcs"
  shows "path_loss d f False rcs_opt bistatic d_rx_opt =
           Inr (20 * log 10 (4 * pi * d / (SPEED_OF_LIGHT / f))) \<and>
         path_loss d f True (Some rcs) False d_rx_opt =
           Inr (2 * (20 * log 10 (4 * pi * d / (SPEED_OF_LIGHT / f)))
                - 10 * log 10 (4 * pi * rcs / (SPEED_OF_LIGHT / f) ^ 2)) \<and>
         path_loss d f True (Some rcs) True (Some d_rx) =
           (if 0 < d_rx
            then Inr (20 * log 10 (4 * pi * d / (SPEED_OF_LIGHT / f))
                      + 20 * log 10 (4 * pi * d_rx / (SPEED_OF_LIGHT / f))
                      - 10 * log 10 (4 * pi * rcs / (SPEED_OF_LIGHT / f) ^ 2))
            else Inl (ValueError ''math domain error''))"
proof -
  from assms have f: "f \<noteq> 0" and df: "0 < d * f" by simp_all
  have drx: "(0 < d_rx * f) = (0 < d_rx)"
    using assms by (simp add: zero_less_mult_iff)
  show ?thesis
    unfolding path_loss_def Let_def log10_one_way [OF f] log10_object_gain [OF f]
    using f df drx assms(3) by simp
qed

theorem path_loss_formulas_witness:
  "(0::real) < 1000000 \<and> (0::real) < 1296000000 \<and> (0::real) < 10 \<and>
   path_loss 1000000 1296000000 True (Some 10) False None =
     Inr (2 * (20 * log 10 (4 * pi * 1000000 / (SPEED_OF_LIGHT / 1296000000)))
          - 10 * log 10 (4 * pi * 10 / (SPEED_OF_LIGHT / 1296000000) ^ 2)) \<and>
   path_loss 1000000 1296000000 True (Some 10) True (Some 2000000) =
     Inr (20 * log 10 (4 * pi * 1000000 / (SPEED_OF_LIGHT / 1296000000))
          + 20 * log 10 (4 * pi * 2000000 / (SPEED_OF_LIGHT / 1296000000))
          - 10 * log 10 (4 * pi * 10 / (SPEED_OF_LIGHT / 1296000000) ^ 2))"
proof -
  have h: "(0::real) < 1000000" "(0::real) < 1296000000" "(0::real) < 10" by simp_all
  from path_loss_formulas [OF h, of None False None 2000000] h show ?thesis
    by (simp only: if_True simp_thms zero_less_numeral)
qed

subsection \<open>Coaxial line\<close>

text \<open>
  C8: \<open>coax_loss_nf L Tl\<close> returns the loss \<open>0.08 L\<close> dB and the noise figure
  \<open>10 log10 (1 + (Tl / T0) (loss - 1))\<close>, where \<open>loss = 10^(0.08 L / 10)\<close> and
  \<open>T0 = 290\<close>. The logarithm has a value when the noise factor is positive, which it is
  for every length and temperature that are not negative. With the line at \<open>T0\<close> the
  noise figure is the loss in dB, for every length.
\<close>

theorem coax_loss_nf_formula:
  "T0 = 290 \<and>
   coax_loss_nf L Tl =
     (if 0 < 1 + (Tl / T0) * (10 powr ((8 / 100) * L / 10) - 1)
      then Inr ((8 / 100) * L, 10 * log 10 (1 + (Tl / T0) * (10 powr ((8 / 100) * L / 10) - 1)))
      else Inl (ValueError ''math domain error'')) \<and>
   (0 \<le> L \<and> 0 \<le> Tl \<longrightarrow> 0 < 1 + (Tl / T0) * (10 powr ((8 / 100) * L / 10) - 1)) \<and>
   coax_loss_nf L T0 = Inr ((8 / 100) * L, (8 / 100) * L)"
proof -
  have a: "coax_loss_nf L Tl =
     (if 0 < 1 + (Tl / T0) * (10 powr ((8 / 100) * L / 10) - 1)
      then Inr ((8 / 100) * L, 10 * log 10 (1 + (Tl / T0) * (10 powr ((8 / 100) * L / 10) - 1)))
      else Inl (ValueError ''math domain error''))"
    by (simp add: coax_loss_nf_def log10_def db_to_abs_def Let_def mult.commute)
  have b: "0 < 1 + (Tl / T0) * (10 powr ((8 / 100) * L / 10) - 1)" if "0 \<le> L" "0 \<le> Tl"
  proof -
    have "(1::real) \<le> 10 powr ((8 / 100) * L / 10)"
      using that(1) by (simp add: ge_one_powr_ge_zero)
    then have "0 \<le> (Tl / T0) * (10 powr ((8 / 100) * L / 10) - 1)"
      using that(2) by (simp add: T0_def)
    then show ?thesis by linarith
  qed
  have "1 + (T0 / T0) * (db_to_abs (L * (8 / 100)) - 1) = db_to_abs (L * (8 / 100))"
    by (simp add: T0_def)
  then have c: "coax_loss_nf L T0 = Inr ((8 / 100) * L, (8 / 100) * L)"
    by (simp add: coax_loss_nf_def Let_def log10_db_to_abs)
  show ?thesis using a b c by (simp add: T0_def)
qed

theorem coax_loss_nf_formula_witness:
  "(0::real) \<le> 10 \<and> (0::real) \<le> 290 \<and>
   0 < 1 + (290 / T0) * (10 powr ((8 / 100) * 10 / 10) - 1) \<and>
   coax_loss_nf 10 T0 = Inr ((8 / 100) * 10, (8 / 100) * 10)"
  using coax_loss_nf_formula [of 10 290] by simp

subsection \<open>Noise cascade\<close>

text \<open>
  C1: a single-stage cascade \<open>total_noise_figure([nf], [])\<close> is meant to return \<open>nf\<close>.
  The source does not: the assertion \<open>len(gains) > 0\<close> fails on the empty gain list,
  before the branch \<open>len(nfs) == 1\<close> that returns \<open>nfs[0]\<close> is reached.
\<close>

theorem total_noise_figure_single_stage:
  "total_noise_figure [nf] [] = Inl AssertionError"
  by (simp add: total_noise_figure_def)

text \<open>
  C6: a gain list whose length is not the length of the noise-figure list minus one is
  rejected with an error; no cascade value is computed from a truncated or padded list.
\<close>

theorem total_noise_figure_arity:
  "int (length gains) \<noteq> int (length nfs) - 1 \<Longrightarrow>
   total_noise_figure nfs gains = Inl AssertionError"
  by (simp add: total_noise_figure_def)

theorem total_noise_figure_arity_witness:
  "int (length [1, 2 :: real]) \<noteq> int (length [3, 4 :: real]) - 1 \<and>
   total_noise_figure [3, 4] [1, 2] = Inl AssertionError"
  using total_noise_figure_arity [of "[1, 2]" "[3, 4]"] by simp

text \<open>
  The loop adds, for the \<open>k\<close>-th remaining stage, its excess noise factor divided by
  the product of the gains up to that stage; no index is out of range and no product is
  zero.
\<close>

lemma noise_loop_sum:
  "i + length rest \<le> length gains \<Longrightarrow> 0 < G \<Longrightarrow>
   noise_loop rest gains i F G =
     Inr (F + (\<Sum>k<length rest. (db_to_abs (rest ! k) - 1)
                    / (G * (\<Prod>j = i..<Suc (i + k). db_to_abs (gains ! j)))))"
proof (induction rest arbitrary: i F G)
  case Nil
  then show ?case by simp
next
  case (Cons nf rest)
  let ?G' = "G * db_to_abs (gains ! i)"
  have G': "0 < ?G'" using Cons.prems(2) by (simp add: db_to_abs_pos)
  have len: "Suc i + length rest \<le> length gains" using Cons.prems(1) by simp
  have prod: "?G' * (\<Prod>j = Suc i..<Suc (Suc i + k). db_to_abs (gains ! j))
      = G * (\<Prod>j = i..<Suc (i + Suc k). db_to_abs (gains ! j))" for k
    by (simp add: prod.atLeast_Suc_lessThan mult.assoc)
  have "noise_loop (nf # rest) gains i F G
      = noise_loop rest gains (Suc i) (F + (db_to_abs nf - 1) / ?G') ?G'"
    using Cons.prems db_to_abs_pos [of "gains ! i"] by (simp add: Let_def)
  also have "\<dots> = Inr (F + (db_to_abs nf - 1) / ?G' +
      (\<Sum>k<length rest. (db_to_abs (rest ! k) - 1)
          / (?G' * (\<Prod>j = Suc i..<Suc (Suc i + k). db_to_abs (gains ! j)))))"
    by (rule Cons.IH [OF len G'])
  also have "\<dots> = Inr (F + (\<Sum>k<length (nf # rest). (db_to_abs ((nf # rest) ! k) - 1)
          / (G * (\<Prod>j = i..<Suc (i + k). db_to_abs (gains ! j)))))"
    by (simp only: prod length_Cons sum.lessThan_Suc_shift) (simp add: add.assoc)
  finally show ?case .
qed

lemma friis_noise_factor_tl:
  assumes "0 < length nfs"
  shows "friis_noise_factor nfs gains =
     db_to_abs (nfs ! 0) +
     (\<Sum>k<length (tl nfs). (db_to_abs (tl nfs ! k) - 1)
          / (1 * (\<Prod>j = 0..<Suc (0 + k). db_to_abs (gains ! j))))"
proof -
  have "(\<Sum>i = 1..<length nfs. (db_to_abs (nfs ! i) - 1) / (\<Prod>j<i. db_to_abs (gains ! j)))
      = (\<Sum>k<length nfs - 1. (db_to_abs (nfs ! Suc k) - 1) / (\<Prod>j<Suc k. db_to_abs (gains ! j)))"
    by (rule sum.reindex_bij_witness [where i = Suc and j = "\<lambda>i. i - 1"]) auto
  also have "\<dots> = (\<Sum>k<length (tl nfs). (db_to_abs (tl nfs ! k) - 1)
          / (1 * (\<Prod>j = 0..<Suc (0 + k). db_to_abs (gains ! j))))"
    by (rule sum.cong) (auto simp: nth_tl lessThan_atLeast0)
  finally show ?thesis by (simp add: friis_noise_factor_def)
qed

lemma noise_loop_friis:
  assumes "2 \<le> length nfs" "length gains = length nfs - 1"
  shows "noise_loop (tl nfs) gains 0 (db_to_abs (nfs ! 0)) 1 = Inr (friis_noise_factor nfs gains)"
proof -
  have ne: "0 < length nfs" using assms(1) by (cases nfs) simp_all
  have len: "0 + length (tl nfs) \<le> length gains" using assms by simp
  have "noise_loop (tl nfs) gains 0 (db_to_abs (nfs ! 0)) 1 =
      Inr (db_to_abs (nfs ! 0) +
        (\<Sum>k<length (tl nfs). (db_to_abs (tl nfs ! k) - 1)
          / (1 * (\<Prod>j = 0..<Suc (0 + k). db_to_abs (gains ! j)))))"
    by (rule noise_loop_sum [OF len]) simp
  also have "\<dots> = Inr (friis_noise_factor nfs gains)"
    by (simp only: friis_noise_factor_tl [OF ne])
  finally show ?thesis .
qed

lemma friis_noise_factor_ge:
  assumes "\<forall>nf \<in> set nfs. 0 \<le> nf" "0 < length nfs"
  shows "1 \<le> friis_noise_factor nfs gains"
proof -
  have ge: "1 \<le> db_to_abs (nfs ! i)" if "i < length nfs" for i
    using assms(1) that by (simp add: db_to_abs_def ge_one_powr_ge_zero)
  have "0 \<le> (\<Sum>i = 1..<length nfs. (db_to_abs (nfs ! i) - 1) / (\<Prod>j<i. db_to_abs (gains ! j)))"
  proof (rule sum_nonneg)
    fix i assume "i \<in> {1..<length nfs}"
    then have "0 \<le> db_to_abs (nfs ! i) - 1" using ge [of i] by simp
    moreover have "0 < (\<Prod>j<i. db_to_abs (gains ! j))"
      by (rule prod_pos) (simp add: db_to_abs_pos)
    ultimately show "0 \<le> (db_to_abs (nfs ! i) - 1) / (\<Prod>j<i. db_to_abs (gains ! j))"
      by simp
  qed
  with ge [of 0] assms(2) show ?thesis by (simp add: friis_noise_factor_def)
qed

lemma friis_two: "friis_noise_factor [a, b] [g] = db_to_abs a + (db_to_abs b - 1) / db_to_abs g"
  by (simp add: friis_noise_factor_def)

text \<open>
  C3: for \<open>N \<ge> 2\<close> noise figures and \<open>N - 1\<close> gains, \<open>total_noise_figure\<close> returns
  \<open>10 log10 F\<close> for the noise factor \<open>F\<close> of the specification
  (\<open>friis_noise_factor\<close>), in which the gain of the last stage does not occur. The
  logarithm is that of the source: it has a value for \<open>F > 0\<close>, which holds whenever no
  noise figure is negative, and raises otherwise.
\<close>

theorem total_noise_figure_friis:
  assumes "2 \<le> length nfs" "length gains = length nfs - 1"
  shows "total_noise_figure nfs gains =
           (if 0 < friis_noise_factor nfs gains
            then Inr (10 * log 10 (friis_noise_factor nfs gains))
            else Inl (ValueError ''math domain error'')) \<and>
         ((\<forall>nf \<in> set nfs. 0 \<le> nf) \<longrightarrow> 0 < friis_noise_factor nfs gains)"
proof -
  have a: "total_noise_figure nfs gains =
           (if 0 < friis_noise_factor nfs gains
            then Inr (10 * log 10 (friis_noise_factor nfs gains))
            else Inl (ValueError ''math domain error''))"
  proof -
    have pre: "0 < length nfs" "0 < length gains" "length nfs \<noteq> 1"
      "int (length gains) = int (length nfs) - 1"
      using assms by auto
    then show ?thesis
      by (simp add: total_noise_figure_def noise_loop_friis [OF assms] log10_def)
  qed
  have b: "0 < friis_noise_factor nfs gains" if "\<forall>nf \<in> set nfs. 0 \<le> nf"
  proof -
    have "0 < length nfs" using assms(1) by (cases nfs) simp_all
    from friis_noise_factor_ge [OF that this, of gains] show ?thesis by simp
  qed
  show ?thesis using a b by blast
qed

theorem total_noise_figure_friis_witness:
  "2 \<le> length [0, 10 :: real] \<and> length [10 :: real] = length [0, 10 :: real] - 1 \<and>
   (0::real) \<le> 0 \<and> (0::real) \<le> 10 \<and>
   friis_noise_factor [0, 10] [10] = 19 / 10 \<and>
   0 < friis_noise_factor [0, 10] [10] \<and>
   total_noise_figure [0, 10] [10] = Inr (10 * log 10 (19 / 10))"
proof -
  have f: "friis_noise_factor [0, 10] [10] = 19 / 10"
    by (simp add: friis_two db_to_abs_def)
  from total_noise_figure_friis [of "[0, 10]" "[10]"] f show ?thesis by simp
qed

subsection \<open>Noise figure and noise temperature\<close>




















subsection \<open>Look angles\<close>

text \<open>
  C10: \<open>look_angles\<close> compares the selector with the one string \<open>ellipsoidal\<close>. That
  value runs the ellipsoidal model; any other string, a misspelling too, runs the
  spherical model, so the only errors are those of the model that ran.
\<close>

theorem look_angles_dispatch:
  "look_angles s l t alt ''ellipsoidal'' = look_angles_ellipsoidal s l t 0 alt \<and>
   (impl \<noteq> ''ellipsoidal'' \<longrightarrow> look_angles s l t alt impl = look_angles_spherical s l t alt)"
  by (simp add: look_angles_def)

theorem look_angles_dispatch_witness:
  "''elipsoidal'' \<noteq> ''ellipsoidal'' \<and>
   look_angles 0 0 0 0 ''elipsoidal'' = look_angles_spherical 0 0 0 0"
  using look_angles_dispatch [of 0 0 0 0 "''elipsoidal''"] by simp

text \<open>
  The statements of the two models that the embedding does not guard cannot raise: the
  square roots have arguments that are not negative (positive where they divide), and
  the first \<^verbatim>\<open>acos\<close> of the spherical model has an argument in \<open>[-1, 1]\<close>.
\<close>

lemma ellipsoidal_sqrt_arg:
  fixes f :: real
  assumes "f = 1 / (298257222100882711 / 10 ^ 15)"
  shows "0 < 1 - (2 * f - f\<^sup>2) * (sin x)\<^sup>2"
proof -
  define e_sq where "e_sq = 2 * f - f\<^sup>2"
  define s where "s = (sin x)\<^sup>2"
  have f: "0 < f" "f < 1" using assms by simp_all
  have "1 - e_sq = (1 - f)\<^sup>2"
    by (simp add: e_sq_def power2_diff)
  moreover have "0 < (1 - f)\<^sup>2" using f by simp
  ultimately have e: "e_sq < 1" by linarith
  have "e_sq = f * (2 - f)"
    by (simp add: e_sq_def power2_eq_square algebra_simps)
  moreover have "0 \<le> f * (2 - f)" using f by (intro mult_nonneg_nonneg) simp_all
  ultimately have e0: "0 \<le> e_sq" by simp
  have "s \<le> 1"
    using abs_sin_le_one [of x] by (simp add: s_def abs_square_le_1)
  then have "e_sq * s \<le> e_sq * 1"
    using e0 by (rule mult_left_mono)
  with e have "0 < 1 - e_sq * s" by linarith
  then show ?thesis by (simp only: e_sq_def s_def)
qed

lemma spherical_sqrt_arg:
  fixes q :: real
  shows "0 \<le> 1 + q\<^sup>2 - 2 * q * cos g"
proof -
  have "1 + q\<^sup>2 - 2 * q * cos g = (q - cos g)\<^sup>2 + (sin g)\<^sup>2"
    by (simp add: sin_squared_eq power2_diff algebra_simps)
  then show ?thesis by simp
qed

lemma spherical_acos_arg: "py_acos (cos a * cos b) = Inr (arccos (cos a * cos b))"
proof -
  have "\<bar>cos a * cos b\<bar> \<le> 1 * 1"
    unfolding abs_mult by (intro mult_mono) simp_all
  then show ?thesis by (simp add: py_acos_def abs_le_iff) 
qed

text \<open>
  The float remainder by a positive number is in \<open>[0, m)\<close>, so the azimuth of the
  ellipsoidal model is in \<open>[0, 360)\<close> whenever the model returns.
\<close>

lemma py_fmod_range:
  assumes "0 < m"
  shows "0 \<le> py_fmod x m \<and> py_fmod x m < m"
proof -
  have "of_int \<lfloor>x / m\<rfloor> * m \<le> x"
    using assms by (simp add: pos_le_divide_eq [symmetric])
  moreover have "x / m < of_int \<lfloor>x / m\<rfloor> + 1"
    by linarith
  then have "x < (of_int \<lfloor>x / m\<rfloor> + 1) * m"
    using assms by (simp only: pos_divide_less_eq)
  ultimately show ?thesis
    by (simp add: py_fmod_def algebra_simps)
qed

lemma look_angles_ellipsoidal_azimuth:
  assumes "look_angles_ellipsoidal sat_long rx_long rx_lat rx_height sat_alt = Inr (el, az, sr)"
  shows "0 \<le> az \<and> az < 360"
proof -
  from assms obtain x where "az = py_fmod x 360"
    unfolding look_angles_ellipsoidal_def Let_def
    by (auto split: prod.splits if_splits)
  then show ?thesis using py_fmod_range [of 360 x] by simp
qed

lemma degrees_arccos_range:
  assumes "py_acos x = Inr b"
  shows "0 \<le> degrees b \<and> degrees b \<le> 180"
proof -
  from assms have x: "- 1 \<le> x" "x \<le> 1" and b: "b = arccos x"
    by (auto simp: py_acos_def split: if_splits)
  from x have "0 \<le> arccos x" "arccos x \<le> pi"
    by (simp_all add: arccos_lbound arccos_ubound)
  then show ?thesis
    by (simp add: b degrees_def pos_divide_le_eq)
qed

lemma look_angles_spherical_azimuth:
  assumes "look_angles_spherical sat_long rx_long rx_lat sat_alt = Inr (v, az, d)"
  shows "0 \<le> az \<and> az \<le> 360"
proof -
  from assms obtain x b where "py_acos x = Inr b"
    and "az = 180 + degrees b \<or> az = 180 - degrees b \<or> az = 360 - degrees b \<or> az = degrees b"
    unfolding look_angles_spherical_def Let_def
    by (auto split: sum.splits if_splits)
  with degrees_arccos_range [of x b] show ?thesis by auto
qed

text \<open>
  The spherical model has no remainder: its four cases put an angle of \<open>[0, 180]\<close>
  into \<open>[0, 360]\<close>, and the upper end is reached. For a receiver in the northern
  hemisphere and a satellite \<open>180\<close> degrees of longitude to the west, \<open>gamma\<close> is
  \<open>pi - rx_lat\<close>, the quotient of the tangents is \<open>- 1\<close>, \<open>beta\<close> is \<open>180\<close> and the
  azimuth is \<open>180 + 180\<close>.
\<close>

lemma spherical_asin_arg:
  assumes "r \<noteq> 0" "1 + q\<^sup>2 - 2 * q * cos g \<noteq> 0"
  shows "- 1 \<le> r / (r * sqrt (1 + q\<^sup>2 - 2 * q * cos g)) * sin g \<and>
         r / (r * sqrt (1 + q\<^sup>2 - 2 * q * cos g)) * sin g \<le> 1"
proof -
  let ?w = "1 + q\<^sup>2 - 2 * q * cos g"
  have "?w - (sin g)\<^sup>2 = (q - cos g)\<^sup>2"
    by (simp add: sin_squared_eq power2_diff algebra_simps)
  then have le: "(sin g)\<^sup>2 \<le> ?w"
    using zero_le_power2 [of "q - cos g"] by linarith
  then have "0 \<le> ?w" using zero_le_power2 [of "sin g"] by linarith
  with assms(2) have pos: "0 < sqrt ?w" by simp
  from le have "\<bar>sin g\<bar> \<le> sqrt ?w"
    by (rule real_le_rsqrt [of "\<bar>sin g\<bar>", simplified])
  then have "\<bar>sin g / sqrt ?w\<bar> \<le> 1"
    using pos by (simp add: pos_divide_le_eq)
  then have "- 1 \<le> sin g / sqrt ?w" "sin g / sqrt ?w \<le> 1"
    by linarith+
  then have "- 1 \<le> sin g / sqrt ?w \<and> sin g / sqrt ?w \<le> 1" ..
  moreover have "r / (r * sqrt ?w) * sin g = sin g / sqrt ?w"
    using assms(1) by simp
  ultimately show ?thesis by (simp only:)
qed

lemma look_angles_spherical_antipodal:
  assumes lat: "0 < lat" "lat < 90" and alt: "6378137 + alt \<noteq> 0"
  shows "\<exists>v d. look_angles_spherical (l - 180) l lat alt = Inr (v, 360, d)"
proof -
  let ?t = "radians lat"
  let ?r = "6378137 + alt"
  let ?q = "6371000 / ?r"
  have t: "0 < ?t" "?t < pi / 2"
    using lat by (simp_all add: radians_def)
  have ct: "0 < cos ?t" using t by (simp add: cos_gt_zero_pi)
  have st: "0 < sin ?t" using t by (simp add: sin_gt_zero)
  have diff: "radians (l - 180) - radians l = - pi"
    by (simp add: radians_def field_simps)
  have cg: "cos ?t * cos (radians (l - 180) - radians l) = - cos ?t"
    by (simp add: diff)
  have acos1: "py_acos (- cos ?t) = Inr (pi - ?t)"
  proof -
    have "arccos (- cos ?t) = pi - arccos (cos ?t)"
      by (rule arccos_minus) (simp_all add: cos_ge_minus_one)
    also have "arccos (cos ?t) = ?t"
      using t by (simp add: arccos_cos)
    finally show ?thesis by (simp add: py_acos_def cos_ge_minus_one)
  qed
  have w: "1 + ?q\<^sup>2 - 2 * ?q * - cos ?t \<noteq> 0"
  proof -
    have "1 + ?q\<^sup>2 - 2 * ?q * - cos ?t = (?q + cos ?t)\<^sup>2 + (sin ?t)\<^sup>2"
      by (simp add: power2_sum sin_squared_eq algebra_simps)
    moreover have "0 < (sin ?t)\<^sup>2" using st by simp
    moreover have "0 \<le> (?q + cos ?t)\<^sup>2" by simp
    ultimately show ?thesis by linarith
  qed
  have w': "1 + ?q\<^sup>2 - 2 * ?q * cos (pi - ?t) \<noteq> 0"
    using w by simp
  have d: "?r * sqrt (1 + ?q\<^sup>2 - 2 * ?q * - cos ?t) \<noteq> 0"
  proof -
    have "0 \<le> 1 + ?q\<^sup>2 - 2 * ?q * - cos ?t"
    proof -
      have "1 + ?q\<^sup>2 - 2 * ?q * - cos ?t = (?q + cos ?t)\<^sup>2 + (sin ?t)\<^sup>2"
        by (simp add: power2_sum sin_squared_eq algebra_simps)
      then show ?thesis by simp
    qed
    with w have "sqrt (1 + ?q\<^sup>2 - 2 * ?q * - cos ?t) \<noteq> 0" by simp
    with alt show ?thesis by simp
  qed
  have asin1: "py_asin (?r / (?r * sqrt (1 + ?q\<^sup>2 - 2 * ?q * - cos ?t)) * sin (pi - ?t)) =
      Inr (arcsin (?r / (?r * sqrt (1 + ?q\<^sup>2 - 2 * ?q * - cos ?t)) * sin (pi - ?t)))"
    using spherical_asin_arg [OF alt w'] by (simp add: py_asin_def)
  have tan1: "py_tan ?t = Inr (tan ?t)"
    using ct by (simp add: py_tan_def)
  have tan2: "py_tan (pi - ?t) = Inr (- tan ?t)"
    using ct by (simp add: py_tan_def tan_def)
  have tpos: "0 < tan ?t" using st ct by (simp add: tan_def)
  have tnz: "- tan ?t \<noteq> 0" using tpos by simp
  have acos2: "py_acos (tan ?t / - tan ?t) = Inr pi"
    using tpos by (simp add: py_acos_def)
  have deg: "degrees pi = 180" by (simp add: degrees_def)
  have lt: "radians (l - 180) < radians l"
    by (simp add: radians_def)
  have "look_angles_spherical (l - 180) l lat alt =
      Inr (90 - degrees (arcsin (?r / (?r * sqrt (1 + ?q\<^sup>2 - 2 * ?q * - cos ?t)) * sin (pi - ?t))),
           180 + 180,
           ?r * sqrt (1 + ?q\<^sup>2 - 2 * ?q * - cos ?t))"
    by (simp only: look_angles_spherical_def Let_def cg acos1 sum.case alt d if_False
        asin1 tan1 tan2 tnz acos2 deg t(1) lt if_True)
  then show ?thesis by simp
qed

text \<open>
  C9: the azimuth of \<open>look_angles\<close> is meant to lie in \<open>[0, 360)\<close> under both models.
  The spherical model returns \<open>360\<close> for the satellite longitude \<open>- 90\<close>, the receiver
  longitude \<open>90\<close> and the receiver latitude \<open>30\<close>, where \<open>tan(gamma)\<close> is not zero and
  the latitude is not polar.
\<close>

theorem look_angles_spherical_azimuth_360:
  "map_sum id (\<lambda>(v, az, d). az) (look_angles (- 90) 90 30 35786000 ''spherical'') = Inr 360"
  using look_angles_spherical_antipodal [of 30 35786000 90]
  by (auto simp: look_angles_def)

subsection \<open>Orchestrator\<close>

lemma and_then_Inr:
  "and_then m k = Inr r \<Longrightarrow> \<exists>v. m = Inr v \<and> k v = Inr r"
  by (cases m) (simp_all add: and_then_def)

lemma and_then_Inl [simp]: "and_then (Inl err) k = Inl err"
  by (simp add: and_then_def)

lemma and_then_Inr_eq [simp]: "and_then (Inr v) k = k v"
  by (simp add: and_then_def)

lemma analyze_stops_at_path_loss:
  assumes "\<And>d v. path_loss d (arg_freq a) (arg_radar a) (arg_radar_cross_section a)
                     (arg_radar_bistatic a) None \<noteq> Inr v"
  shows "analyze a \<noteq> Inr r"
proof
  assume "analyze a = Inr r"
  then show False
    unfolding analyze_def Let_def
    by (auto dest!: and_then_Inr simp: assms split: prod.splits)
qed

lemma look_angles_ellipsoidal_zenith:
  assumes "0 < alt"
  shows "look_angles_ellipsoidal 0 0 0 0 alt = Inr (90, 0, alt)"
  using assms
  by (simp add: look_angles_ellipsoidal_def radians_def degrees_def Let_def vec_sub_def
      vec_dot_def vec_norm_def mat_vec_def atan2_def py_fmod_def)

lemma analyze_bistatic_args:
  "analyze bistatic_args = Inl (ValueError ''Rx distance required in bistatic radar mode'')"
  by (simp add: analyze_def bistatic_args_def number_def look_angles_def
      look_angles_ellipsoidal_zenith path_loss_bistatic_no_rx)

text \<open>
  C2: with the radar and the bistatic flags set, \<open>analyze\<close> always ends in an error and
  never returns a result: it calls \<open>path_loss\<close> without a receiver distance, and that
  call is an error for every slant range. Any earlier step that fails ends the run with
  its own error; when the earlier steps pass, as for \<open>bistatic_args\<close>, the error is the
  \<open>ValueError\<close> of the missing receiver distance.
\<close>

theorem analyze_bistatic_fails:
  assumes "arg_radar a" "arg_radar_bistatic a"
  shows "(\<exists>err. analyze a = Inl err) \<and>
         (\<forall>d. \<exists>err. path_loss d (arg_freq a) (arg_radar a) (arg_radar_cross_section a)
                        (arg_radar_bistatic a) None = Inl err)"
proof -
  have pl: "\<exists>err. path_loss d (arg_freq a) (arg_radar a) (arg_radar_cross_section a)
                        (arg_radar_bistatic a) None = Inl err" for d
    using assms by (simp add: path_loss_bistatic_fails)
  have "analyze a \<noteq> Inr r" for r
    by (rule analyze_stops_at_path_loss) (simp add: assms path_loss_bistatic_not_Inr)
  then have "\<exists>err. analyze a = Inl err"
    by (cases "analyze a") auto
  with pl show ?thesis by blast
qed

theorem analyze_bistatic_fails_witness:
  "arg_radar bistatic_args \<and> arg_radar_bistatic bistatic_args \<and>
   analyze bistatic_args = Inl (ValueError ''Rx distance required in bistatic radar mode'')"
proof -
  have h: "arg_radar bistatic_args" "arg_radar_bistatic bistatic_args"
    by (simp_all add: bistatic_args_def)
  from analyze_bistatic_fails [OF h] analyze_bistatic_args h show ?thesis by simp
qed

end
